theory Spec2Isabelle
  imports Complex_Main
begin

section \<open>JavaScript values\<close>

text \<open>
  A JavaScript number is an IEEE double. Every finite double is a rational, and the
  comparisons of the language agree with the order of the rationals on them, so a number
  is read here as a rational, an infinity or NaN (the two zeros are identified: they are
  equal under \<^verbatim>\<open><\<close>, \<^verbatim>\<open>></\<close> and \<^verbatim>\<open>===\<close>). Only comparison and copying are modelled on
  numbers; the builtins that compute new numbers are fields of the runtime below.
\<close>

datatype jsnum = NaN | NegInf | Fin rat | PosInf

text \<open>A string is read as its sequence of code points (a lone surrogate is a code point
  in D800..DFFF).\<close>

type_synonym jsstring = "nat list"

text \<open>An object (array, dictionary, Buffer) is opaque: only its identity is kept.\<close>

datatype jsval = JUndefined | JNull | JBool bool | JNum jsnum | JStr jsstring | JObj nat

datatype js_error = Error string | TypeError string

text \<open>\<^verbatim>\<open>x == null\<close>\<close>

fun is_nullish :: "jsval \<Rightarrow> bool" where
  "is_nullish JUndefined = True"
| "is_nullish JNull = True"
| "is_nullish _ = False"

text \<open>\<^verbatim>\<open>if (x)\<close>\<close>

fun truthy :: "jsval \<Rightarrow> bool" where
  "truthy JUndefined = False"
| "truthy JNull = False"
| "truthy (JBool b) = b"
| "truthy (JNum NaN) = False"
| "truthy (JNum (Fin q)) = (q \<noteq> 0)"
| "truthy (JNum _) = True"
| "truthy (JStr s) = (s \<noteq> [])"
| "truthy (JObj _) = True"

text \<open>\<^verbatim>\<open>a < b\<close> on numbers: false as soon as one side is NaN.\<close>

fun num_lt :: "jsnum \<Rightarrow> jsnum \<Rightarrow> bool" where
  "num_lt NaN _ = False"
| "num_lt _ NaN = False"
| "num_lt NegInf NegInf = False"
| "num_lt NegInf _ = True"
| "num_lt PosInf _ = False"
| "num_lt (Fin a) NegInf = False"
| "num_lt (Fin a) (Fin b) = (a < b)"
| "num_lt (Fin a) PosInf = True"

text \<open>\<^verbatim>\<open>a === b\<close>: NaN differs from itself, objects are compared by identity.\<close>

fun strict_eq :: "jsval \<Rightarrow> jsval \<Rightarrow> bool" where
  "strict_eq (JNum NaN) _ = False"
| "strict_eq _ (JNum NaN) = False"
| "strict_eq a b = (a = b)"

text \<open>
  The builtins of the host that the code calls and that are not part of the repository:
  the conversion of a string and of an object to a number (\<^verbatim>\<open>ToNumber\<close>, for an object
  after \<^verbatim>\<open>ToPrimitive\<close>), \<^verbatim>\<open>parseInt\<close>, \<^verbatim>\<open>parseFloat\<close>, the double arithmetic
  \<^verbatim>\<open>Math.round(value * pow) / pow\<close> with \<^verbatim>\<open>pow = Math.pow(10, decimalPlaces(minStep))\<close>,
  and \<^verbatim>\<open>new Buffer(value, 'utf8')\<close> on a value that is not a string (a byte sequence, or
  the error it throws).
\<close>

record js_runtime =
  StringToNumber :: "jsstring \<Rightarrow> jsnum"
  ObjectToNumber :: "nat \<Rightarrow> jsnum"
  parseInt :: "jsval \<Rightarrow> jsval"
  parseFloat :: "jsval \<Rightarrow> jsval"
  roundToStep :: "jsval \<Rightarrow> jsnum \<Rightarrow> jsval"
  BufferOf :: "jsval \<Rightarrow> js_error + nat list"

fun ToNumber :: "js_runtime \<Rightarrow> jsval \<Rightarrow> jsnum" where
  "ToNumber rt JUndefined = NaN"
| "ToNumber rt JNull = Fin 0"
| "ToNumber rt (JBool b) = Fin (if b then 1 else 0)"
| "ToNumber rt (JNum n) = n"
| "ToNumber rt (JStr s) = StringToNumber rt s"
| "ToNumber rt (JObj r) = ObjectToNumber rt r"

text \<open>\<^verbatim>\<open>v < n\<close> and \<^verbatim>\<open>v > n\<close> for a number \<open>n\<close>: the other operand is converted to a
  number.\<close>

definition js_lt :: "js_runtime \<Rightarrow> jsval \<Rightarrow> jsnum \<Rightarrow> bool" where
  "js_lt rt v n = num_lt (ToNumber rt v) n"

definition js_gt :: "js_runtime \<Rightarrow> jsval \<Rightarrow> jsnum \<Rightarrow> bool" where
  "js_gt rt v n = num_lt n (ToNumber rt v)"

subsection \<open>UTF-8, as Buffer encodes and decodes it\<close>

text \<open>\<^verbatim>\<open>new Buffer(s, 'utf8')\<close>: a lone surrogate is written as U+FFFD.\<close>

definition utf8_char :: "nat \<Rightarrow> nat list" where
  "utf8_char cp =
     (if cp < 0x80 then [cp]
      else if cp < 0x800 then [0xC0 + cp div 0x40, 0x80 + cp mod 0x40]
      else if 0xD800 \<le> cp \<and> cp \<le> 0xDFFF then [0xEF, 0xBF, 0xBD]
      else if cp < 0x10000 then
        [0xE0 + cp div 0x1000, 0x80 + (cp div 0x40) mod 0x40, 0x80 + cp mod 0x40]
      else if cp < 0x110000 then
        [0xF0 + cp div 0x40000, 0x80 + (cp div 0x1000) mod 0x40,
         0x80 + (cp div 0x40) mod 0x40, 0x80 + cp mod 0x40]
      else [0xEF, 0xBF, 0xBD])"

definition utf8_encode :: "jsstring \<Rightarrow> nat list" where
  "utf8_encode s = concat (map utf8_char s)"

definition cont_byte :: "nat \<Rightarrow> bool" where
  "cont_byte b = (0x80 \<le> b \<and> b \<le> 0xBF)"

text \<open>\<^verbatim>\<open>buf.toString('utf8')\<close>: a byte sequence that is not UTF-8 (in particular a
  character cut short by the end of the buffer) becomes U+FFFD.\<close>

fun utf8_decode :: "nat list \<Rightarrow> jsstring" where
  "utf8_decode [] = []"
| "utf8_decode (b # bs) =
     (if b < 0x80 then b # utf8_decode bs
      else if 0xC2 \<le> b \<and> b \<le> 0xDF then
        (case bs of
           [] \<Rightarrow> [0xFFFD]
         | c1 # r1 \<Rightarrow>
             if cont_byte c1 then ((b - 0xC0) * 0x40 + (c1 - 0x80)) # utf8_decode r1
             else 0xFFFD # utf8_decode bs)
      else if 0xE0 \<le> b \<and> b \<le> 0xEF then
        (case bs of
           [] \<Rightarrow> [0xFFFD]
         | c1 # r1 \<Rightarrow>
             if (if b = 0xE0 then 0xA0 else 0x80) \<le> c1 \<and> c1 \<le> (if b = 0xED then 0x9F else 0xBF)
             then (case r1 of
                     [] \<Rightarrow> [0xFFFD]
                   | c2 # r2 \<Rightarrow>
                       if cont_byte c2
                       then ((b - 0xE0) * 0x1000 + (c1 - 0x80) * 0x40 + (c2 - 0x80)) # utf8_decode r2
                       else 0xFFFD # utf8_decode r1)
             else 0xFFFD # utf8_decode bs)
      else if 0xF0 \<le> b \<and> b \<le> 0xF4 then
        (case bs of
           [] \<Rightarrow> [0xFFFD]
         | c1 # r1 \<Rightarrow>
             if (if b = 0xF0 then 0x90 else 0x80) \<le> c1 \<and> c1 \<le> (if b = 0xF4 then 0x8F else 0xBF)
             then (case r1 of
                     [] \<Rightarrow> [0xFFFD]
                   | c2 # r2 \<Rightarrow>
                       if cont_byte c2
                       then (case r2 of
                               [] \<Rightarrow> [0xFFFD]
                             | c3 # r3 \<Rightarrow>
                                 if cont_byte c3
                                 then ((b - 0xF0) * 0x40000 + (c1 - 0x80) * 0x1000
                                        + (c2 - 0x80) * 0x40 + (c3 - 0x80)) # utf8_decode r3
                                 else 0xFFFD # utf8_decode r2)
                       else 0xFFFD # utf8_decode r1)
             else 0xFFFD # utf8_decode bs)
      else 0xFFFD # utf8_decode bs)"

section \<open>Characteristic\<close>

datatype format =
  Formats_BOOL | Formats_INT | Formats_FLOAT | Formats_STRING | Formats_ARRAY | Formats_DICTIONARY
  | Formats_UINT8 | Formats_UINT16 | Formats_UINT32 | Formats_UINT64 | Formats_DATA | Formats_TLV8 | OtherFormat string

text \<open>\<^verbatim>\<open>Characteristic.Perms\<close>\<close>

definition Perms_READ :: string where "Perms_READ = ''pr''"
definition Perms_WRITE :: string where "Perms_WRITE = ''pw''"
definition Perms_NOTIFY :: string where "Perms_NOTIFY = ''ev''"
definition Perms_HIDDEN :: string where "Perms_HIDDEN = ''hd''"

text \<open>The props of a cell. A field that is \<^verbatim>\<open>null\<close> or \<^verbatim>\<open>undefined\<close> is \<open>None\<close>
  (the code tests them with \<^verbatim>\<open>!= null\<close> and \<^verbatim>\<open>||\<close> only); the bounds and the step are
  numbers, as the comment of \<^verbatim>\<open>setProps\<close> says.\<close>

record props =
  format :: "format option"
  unit :: "string option"
  minValue :: "jsnum option"
  maxValue :: "jsnum option"
  minStep :: "jsnum option"
  perms :: "string list"
  validValues :: "jsval list option"
  validValueRanges :: "jsval list option"

text \<open>
  A cell. \<open>ref\<close> is the identity of the object and \<open>classes\<close> the constructors on its
  prototype chain (what \<^verbatim>\<open>instanceof\<close> answers); \<open>val\<close> is the field \<^verbatim>\<open>value\<close>. Of the
  EventEmitter only the number of listeners of each event is kept.
\<close>

record characteristic =
  ref :: nat
  classes :: "nat list"
  displayName :: string
  UUID :: string
  iid :: "nat option"
  val :: jsval
  props :: props
  get_listeners :: nat
  set_listeners :: nat
  change_listeners :: nat

text \<open>The object that \<^verbatim>\<open>toHAP\<close> returns; an absent key is \<open>None\<close>.\<close>

record hap =
  hap_iid :: "nat option"
  hap_type :: string
  hap_perms :: "string list"
  hap_format :: "format option"
  hap_value :: "jsval option"
  hap_description :: string
  hap_valid_values :: "jsval list option"
  hap_valid_values_range :: "jsval list option"
  hap_unit :: "string option"
  hap_maxValue :: "jsnum option"
  hap_minValue :: "jsnum option"
  hap_minStep :: "jsnum option"
  hap_maxLen :: "nat option"

text \<open>The argument \<^verbatim>\<open>opt\<close> of \<^verbatim>\<open>toHAP\<close>: absent, or an object with a field
  \<^verbatim>\<open>omitValues\<close>.\<close>

record hap_options =
  omitValues :: jsval

text \<open>Lines 223 to 225: the value is fitted to the lower bound, then to the upper one.\<close>

definition clampValue :: "js_runtime \<Rightarrow> props \<Rightarrow> jsval \<Rightarrow> jsval" where
  "clampValue rt p v0 =
     (let v1 = (case minValue p of
                  Some mn \<Rightarrow> if js_lt rt v0 mn then JNum mn else v0
                | None \<Rightarrow> v0)
      in (case maxValue p of
            Some mx \<Rightarrow> if js_gt rt v1 mx then JNum mx else v1
          | None \<Rightarrow> v1))"

text \<open>Lines 226 to 244: the coercion by format.\<close>

definition coerceValue :: "js_runtime \<Rightarrow> props \<Rightarrow> jsval \<Rightarrow> jsval" where
  "coerceValue rt p v =
     (case format p of
        None \<Rightarrow> v
      | Some f \<Rightarrow>
          if f = Formats_INT then parseInt rt v
          else if f = Formats_UINT8 then parseInt rt v
          else if f = Formats_UINT16 then parseInt rt v
          else if f = Formats_UINT32 then parseInt rt v
          else if f = Formats_UINT64 then parseInt rt v
          else if f = Formats_FLOAT then
            (let x = parseFloat rt v
             in (case minStep p of Some st \<Rightarrow> roundToStep rt x st | None \<Rightarrow> x))
          else v)"

text \<open>\<^verbatim>\<open>new Buffer(value, 'utf8')\<close>\<close>

definition Buffer_utf8 :: "js_runtime \<Rightarrow> jsval \<Rightarrow> js_error + nat list" where
  "Buffer_utf8 rt v = (case v of JStr s \<Rightarrow> Inr (utf8_encode s) | _ \<Rightarrow> BufferOf rt v)"

text \<open>Lines 274 to 284: the length rules of a string cell.\<close>

definition stringLimit :: "js_runtime \<Rightarrow> props \<Rightarrow> jsval \<Rightarrow> hap \<Rightarrow> js_error + hap" where
  "stringLimit rt p v h =
     (if format p = Some Formats_STRING then
        (case Buffer_utf8 rt v of
           Inl e \<Rightarrow> Inl e
         | Inr str \<Rightarrow>
             (let len = length str in
              if len > 256 then
                Inr (h\<lparr>hap_value := Some (JStr (utf8_decode (take 256 str))),
                        hap_maxLen := Some 256\<rparr>)
              else if len > 64 then Inr (h\<lparr>hap_maxLen := Some len\<rparr>)
              else Inr h))
      else Inr h)"

text \<open>Lines 246 to 272: the object and its optional keys.\<close>

definition hapFields :: "characteristic \<Rightarrow> jsval \<Rightarrow> hap" where
  "hapFields c v =
     (let p = props c;
          h0 = \<lparr>hap_iid = iid c, hap_type = UUID c, hap_perms = perms p,
                hap_format = format p, hap_value = Some v, hap_description = displayName c,
                hap_valid_values = None, hap_valid_values_range = None, hap_unit = None,
                hap_maxValue = None, hap_minValue = None, hap_minStep = None,
                hap_maxLen = None\<rparr>;
          h1 = (case validValues p of
                  Some vs \<Rightarrow> if length vs > 0 then h0\<lparr>hap_valid_values := Some vs\<rparr> else h0
                | None \<Rightarrow> h0);
          h2 = (case validValueRanges p of
                  Some rs \<Rightarrow>
                    if length rs > 0 \<and> even (length rs)
                    then h1\<lparr>hap_valid_values_range := Some rs\<rparr> else h1
                | None \<Rightarrow> h1);
          h3 = (case unit p of Some u \<Rightarrow> h2\<lparr>hap_unit := Some u\<rparr> | None \<Rightarrow> h2);
          h4 = (case maxValue p of Some m \<Rightarrow> h3\<lparr>hap_maxValue := Some m\<rparr> | None \<Rightarrow> h3);
          h5 = (case minValue p of Some m \<Rightarrow> h4\<lparr>hap_minValue := Some m\<rparr> | None \<Rightarrow> h4)
      in (case minStep p of Some m \<Rightarrow> h5\<lparr>hap_minStep := Some m\<rparr> | None \<Rightarrow> h5))"

text \<open>\<^verbatim>\<open>opt && opt.omitValues\<close>\<close>

definition omit_requested :: "hap_options option \<Rightarrow> bool" where
  "omit_requested opt = (case opt of None \<Rightarrow> False | Some ob \<Rightarrow> truthy (omitValues ob))"

text \<open>
  \<^verbatim>\<open>Characteristic.prototype.toHAP\<close>. A method returns the receiver as the call leaves
  it, together with its result; the result of \<^verbatim>\<open>toHAP\<close> is the object, or the error
  thrown by the Buffer constructor.
\<close>

definition toHAP ::
  "js_runtime \<Rightarrow> characteristic \<Rightarrow> hap_options option \<Rightarrow> characteristic \<times> (js_error + hap)" where
  "toHAP rt c opt =
     (let v = coerceValue rt (props c) (clampValue rt (props c) (val c))
      in (case stringLimit rt (props c) v (hapFields c v) of
            Inl e \<Rightarrow> (c, Inl e)
          | Inr h \<Rightarrow>
              (let h' = (if Perms_READ \<notin> set (perms (props c)) then h\<lparr>hap_value := None\<rparr> else h);
                   h'' = (if omit_requested opt then h'\<lparr>hap_value := None\<rparr> else h')
               in (c, Inr h''))))"

subsection \<open>Reading and writing the cached value\<close>

text \<open>
  What a call does besides changing the receiver: it calls the caller's callback (known
  by its identity) and emits events. Callbacks and listeners are code of the caller;
  they are taken not to call back into the cell while the method runs.
\<close>

datatype effect =
    Call nat "jsval list"
  | Emit_get jsval jsval
  | Emit_set jsval jsval jsval
  | Emit_change jsval jsval jsval

text \<open>\<^verbatim>\<open>if (callback) callback(...)\<close>\<close>

definition call_back :: "nat option \<Rightarrow> jsval list \<Rightarrow> effect list" where
  "call_back cb args = (case cb of Some f \<Rightarrow> [Call f args] | None \<Rightarrow> [])"

text \<open>\<^verbatim>\<open>Characteristic.prototype.getDefaultValue\<close>. The array and the dictionary are new
  objects at each call: the second argument is the next unused object identity.\<close>

definition getDefaultValue :: "characteristic \<Rightarrow> nat \<Rightarrow> jsval \<times> nat" where
  "getDefaultValue c h =
     (let f = format (props c) in
      if f = Some Formats_BOOL then (JBool False, h)
      else if f = Some Formats_STRING then (JStr [], h)
      else if f = Some Formats_ARRAY then (JObj h, Suc h)
      else if f = Some Formats_DICTIONARY then (JObj h, Suc h)
      else if f = Some Formats_DATA then (JStr [], h)
      else if f = Some Formats_TLV8 then (JStr [], h)
      else (case minValue (props c) of
              Some m \<Rightarrow> if truthy (JNum m) then (JNum m, h) else (JNum (Fin 0), h)
            | None \<Rightarrow> (JNum (Fin 0), h)))"

text \<open>
  The five lines that \<^verbatim>\<open>getValue\<close>, \<^verbatim>\<open>setValue\<close> (twice) and \<^verbatim>\<open>updateValue\<close> share:
  fill a missing value with the default, store it, call the callback, emit
  \<^verbatim>\<open>'change'\<close> when the old and the new value differ under \<^verbatim>\<open>!==\<close>. \<open>args\<close> gives the
  arguments of the callback from the stored value.
\<close>

definition store_value ::
  "nat option \<Rightarrow> (jsval \<Rightarrow> jsval list) \<Rightarrow> jsval \<Rightarrow> jsval \<Rightarrow> characteristic \<times> nat
     \<Rightarrow> (characteristic \<times> nat) \<times> effect list" where
  "store_value cb args context newValue s =
     (let c = fst s;
          filled = (if is_nullish newValue then getDefaultValue c (snd s) else (newValue, snd s));
          oldValue = val c
      in ((c\<lparr>val := fst filled\<rparr>, snd filled),
          call_back cb (args (fst filled))
            @ (if \<not> strict_eq oldValue (fst filled)
               then [Emit_change oldValue (fst filled) context] else [])))"

text \<open>\<^verbatim>\<open>Characteristic.prototype.updateValue\<close>, on the cell and the next object identity.\<close>

definition updateValue ::
  "characteristic \<times> nat \<Rightarrow> jsval \<Rightarrow> nat option \<Rightarrow> jsval \<Rightarrow> (characteristic \<times> nat) \<times> effect list" where
  "updateValue s newValue cb context = store_value cb (\<lambda>_. []) context newValue s"

text \<open>The function that \<^verbatim>\<open>getValue\<close> hands to \<^verbatim>\<open>once\<close> (lines 114 to 134), called with
  \<open>(err, newValue)\<close>.\<close>

definition getValue_done ::
  "nat option \<Rightarrow> jsval \<Rightarrow> jsval \<times> jsval \<Rightarrow> characteristic \<times> nat
     \<Rightarrow> (characteristic \<times> nat) \<times> effect list" where
  "getValue_done cb context args s =
     (if truthy (fst args) then (s, call_back cb [fst args])
      else store_value cb (\<lambda>v. [JNull, v]) context (snd args) s)"

text \<open>The function that \<^verbatim>\<open>setValue\<close> hands to \<^verbatim>\<open>once\<close> (lines 149 to 167), called with
  \<open>err\<close> (a second argument is ignored).\<close>

definition setValue_done ::
  "jsval \<Rightarrow> nat option \<Rightarrow> jsval \<Rightarrow> jsval \<times> jsval \<Rightarrow> characteristic \<times> nat
     \<Rightarrow> (characteristic \<times> nat) \<times> effect list" where
  "setValue_done newValue cb context args s =
     (if truthy (fst args) then (s, call_back cb [fst args])
      else store_value cb (\<lambda>_. []) context newValue s)"

text \<open>
  Modelled from the spec: \<^verbatim>\<open>lib/util/once\<close> is not among the sources. The spec calls it a
  latch, a single-resolution wrapper: the wrapped function runs at the first call, and
  "later resolutions are silently dropped, not surfaced as errors". The latch is the
  boolean; a call returns the latch, the state and the effects.
\<close>

definition once ::
  "('a \<Rightarrow> 's \<Rightarrow> 's \<times> 'e list) \<Rightarrow> bool \<Rightarrow> 'a \<Rightarrow> 's \<Rightarrow> bool \<times> 's \<times> 'e list" where
  "once f called args s = (if called then (True, s, []) else (True, f args s))"

text \<open>A request that waits for its override: what the latched function closes over.\<close>

datatype request =
    GetRequest "nat option" jsval
  | SetRequest jsval "nat option" jsval

text \<open>\<^verbatim>\<open>Characteristic.prototype.getValue\<close>: with a listener of \<^verbatim>\<open>'get'\<close> the event is
  emitted with the latched function, otherwise the callback gets the cached value.\<close>

definition getValue ::
  "characteristic \<Rightarrow> nat option \<Rightarrow> jsval \<Rightarrow> jsval
     \<Rightarrow> characteristic \<times> effect list \<times> request option" where
  "getValue c cb context connectionID =
     (if get_listeners c > 0
      then (c, [Emit_get context connectionID], Some (GetRequest cb context))
      else (c, call_back cb [JNull, val c], None))"

text \<open>\<^verbatim>\<open>Characteristic.prototype.setValue\<close>\<close>

definition setValue ::
  "characteristic \<times> nat \<Rightarrow> jsval \<Rightarrow> nat option \<Rightarrow> jsval \<Rightarrow> jsval
     \<Rightarrow> (characteristic \<times> nat) \<times> effect list \<times> request option" where
  "setValue s newValue cb context connectionID =
     (if set_listeners (fst s) > 0
      then (s, [Emit_set newValue context connectionID], Some (SetRequest newValue cb context))
      else (let r = store_value cb (\<lambda>_. []) context newValue s in (fst r, snd r, None)))"

text \<open>The override calls the latched function of a request: \<open>called\<close> is the latch.\<close>

fun resolve ::
  "request \<Rightarrow> bool \<Rightarrow> jsval \<times> jsval \<Rightarrow> characteristic \<times> nat
     \<Rightarrow> bool \<times> (characteristic \<times> nat) \<times> effect list" where
  "resolve (GetRequest cb context) called args s = once (getValue_done cb context) called args s"
| "resolve (SetRequest newValue cb context) called args s =
     once (setValue_done newValue cb context) called args s"

text \<open>An override that calls the latched function several times, each time when the
  cell is in the state the previous call left: the effects of all the calls.\<close>

fun resolve_all ::
  "request \<Rightarrow> bool \<Rightarrow> (jsval \<times> jsval) list \<Rightarrow> characteristic \<times> nat
     \<Rightarrow> bool \<times> (characteristic \<times> nat) \<times> effect list" where
  "resolve_all r called [] s = (called, s, [])"
| "resolve_all r called (a # as) s =
     (let r1 = resolve r called a s;
          r2 = resolve_all r (fst r1) as (fst (snd r1))
      in (fst r2, fst (snd r2), snd (snd r1) @ snd (snd r2)))"

text \<open>The calls of a callback among effects.\<close>

fun is_call :: "effect \<Rightarrow> bool" where
  "is_call (Call f args) = True"
| "is_call _ = False"

fun is_change :: "effect \<Rightarrow> bool" where
  "is_change (Emit_change old new context) = True"
| "is_change _ = False"

section \<open>Service\<close>

text \<open>
  A constructor of cells, as \<^verbatim>\<open>Characteristic.Brightness\<close>: its identity, the constructors
  it inherits from, its static property \<^verbatim>\<open>UUID\<close> (absent on a constructor that has none)
  and the fields that \<^verbatim>\<open>new\<close> sets from the arguments.
\<close>

record ctor =
  ctor_id :: nat
  ctor_supers :: "nat list"
  ctor_UUID :: "string option"
  ctor_init :: "jsval list \<Rightarrow> characteristic"

text \<open>\<^verbatim>\<open>new F(args)\<close>: a new object, an instance of \<open>F\<close> and of what \<open>F\<close> inherits from.\<close>

definition construct :: "ctor \<Rightarrow> jsval list \<Rightarrow> nat \<Rightarrow> characteristic \<times> nat" where
  "construct F args h =
     ((ctor_init F args)\<lparr>ref := h, classes := ctor_id F # ctor_supers F\<rparr>, Suc h)"

text \<open>The argument of \<^verbatim>\<open>addCharacteristic\<close>: \<^verbatim>\<open>typeof characteristic === 'function'\<close> or
  an instance.\<close>

datatype char_arg = Constructor ctor | Instance characteristic

text \<open>The argument of \<^verbatim>\<open>getCharacteristic\<close>: \<^verbatim>\<open>typeof name === 'string'\<close> or
  \<^verbatim>\<open>typeof name === 'function'\<close>.\<close>

datatype selector = ByName string | ByType ctor

record service =
  s_displayName :: string
  s_UUID :: string
  subtype :: "string option"
  s_iid :: "nat option"
  characteristics :: "characteristic list"
  optionalCharacteristics :: "characteristic list"
  isPrimaryService :: "bool option"

datatype s_effect = Emit_service_configurationChange

text \<open>\<^verbatim>\<open>Service.prototype.addCharacteristic\<close>, on the service and the next object identity.
  The result is the cell, or the error thrown; the state is the one at the throw.\<close>

definition addCharacteristic ::
  "service \<times> nat \<Rightarrow> char_arg \<Rightarrow> jsval list
     \<Rightarrow> (service \<times> nat) \<times> s_effect list \<times> (js_error + characteristic)" where
  "addCharacteristic st a args =
     (let made = (case a of Constructor F \<Rightarrow> construct F args (snd st)
                          | Instance c \<Rightarrow> (c, snd st));
          s = fst st
      in (case find (\<lambda>existing. UUID existing = UUID (fst made)) (characteristics s) of
            Some existing \<Rightarrow>
              ((s, snd made), [],
               Inl (Error (''Cannot add a Characteristic with the same UUID as another Characteristic in this Service: ''
                           @ UUID existing)))
          | None \<Rightarrow>
              (let c = (fst made)\<lparr>change_listeners := Suc (change_listeners (fst made))\<rparr>
               in ((s\<lparr>characteristics := characteristics s @ [c]\<rparr>, snd made),
                   [Emit_service_configurationChange], Inr c))))"

text \<open>The index of the first element that satisfies \<open>P\<close>, as the loops with \<^verbatim>\<open>break\<close>
  find it, and \<^verbatim>\<open>splice(i, 1)\<close>.\<close>

fun first_index :: "('a \<Rightarrow> bool) \<Rightarrow> 'a list \<Rightarrow> nat option" where
  "first_index P [] = None"
| "first_index P (x # xs) = (if P x then Some 0 else map_option Suc (first_index P xs))"

definition splice1 :: "nat \<Rightarrow> 'a list \<Rightarrow> 'a list" where
  "splice1 i xs = take i xs @ drop (Suc i) xs"

text \<open>\<^verbatim>\<open>characteristic.removeAllListeners()\<close>\<close>

definition removeAllListeners :: "characteristic \<Rightarrow> characteristic" where
  "removeAllListeners c = c\<lparr>get_listeners := 0, set_listeners := 0, change_listeners := 0\<rparr>"

text \<open>\<^verbatim>\<open>Service.prototype.removeCharacteristic\<close>: the service, the cell given, the events,
  and the result (nothing, or an error). The index found is a key of the array, a string
  that is never empty, so the test of line 94 is whether one was found.\<close>

definition removeCharacteristic ::
  "service \<Rightarrow> characteristic
     \<Rightarrow> service \<times> characteristic \<times> s_effect list \<times> (js_error + unit)" where
  "removeCharacteristic s c =
     (case first_index (\<lambda>existing. ref existing = ref c) (characteristics s) of
        Some i \<Rightarrow>
          (s\<lparr>characteristics := splice1 i (characteristics s)\<rparr>, removeAllListeners c,
           [Emit_service_configurationChange], Inr ())
      | None \<Rightarrow> (s, c, [], Inr ()))"

text \<open>The test of lines 109 to 114 and of line 119.\<close>

fun matches :: "selector \<Rightarrow> characteristic \<Rightarrow> bool" where
  "matches (ByName n) c = (displayName c = n)"
| "matches (ByType F) c = (ctor_id F \<in> set (classes c) \<or> ctor_UUID F = Some (UUID c))"

text \<open>\<^verbatim>\<open>Service.prototype.getCharacteristic\<close>: the result is the cell found or added, or
  \<^verbatim>\<open>undefined\<close> (\<open>None\<close>), or the error thrown by \<^verbatim>\<open>addCharacteristic\<close>.\<close>

definition getCharacteristic ::
  "service \<times> nat \<Rightarrow> selector
     \<Rightarrow> (service \<times> nat) \<times> s_effect list \<times> (js_error + characteristic option)" where
  "getCharacteristic st name =
     (case find (matches name) (characteristics (fst st)) of
        Some c \<Rightarrow> (st, [], Inr (Some c))
      | None \<Rightarrow>
          (case name of
             ByType F \<Rightarrow>
               if list_ex (matches (ByType F)) (optionalCharacteristics (fst st))
               then (let r = addCharacteristic st (Constructor F) []
                     in (fst r, fst (snd r), map_sum id Some (snd (snd r))))
               else (st, [], Inr None)
           | ByName n \<Rightarrow> (st, [], Inr None)))"

text \<open>\<^verbatim>\<open>Service.prototype.testCharacteristic\<close>\<close>

definition testCharacteristic :: "service \<Rightarrow> selector \<Rightarrow> bool" where
  "testCharacteristic s name = list_ex (matches name) (characteristics s)"

text \<open>\<^verbatim>\<open>Service.prototype.addOptionalCharacteristic\<close>\<close>

definition addOptionalCharacteristic :: "service \<times> nat \<Rightarrow> char_arg \<Rightarrow> service \<times> nat" where
  "addOptionalCharacteristic st a =
     (let made = (case a of Constructor F \<Rightarrow> construct F [] (snd st)
                          | Instance c \<Rightarrow> (c, snd st))
      in ((fst st)\<lparr>optionalCharacteristics := optionalCharacteristics (fst st) @ [fst made]\<rparr>,
          snd made))"

record service_hap =
  shap_iid :: "nat option"
  shap_type :: string
  shap_characteristics :: "hap list"
  shap_primary :: "bool option"

text \<open>The loop of \<^verbatim>\<open>Service.prototype.toHAP\<close>: the objects of the cells in order, or the
  first error thrown.\<close>

fun toHAP_each ::
  "js_runtime \<Rightarrow> characteristic list \<Rightarrow> hap_options option \<Rightarrow> js_error + hap list" where
  "toHAP_each rt [] opt = Inr []"
| "toHAP_each rt (c # cs) opt =
     (case snd (toHAP rt c opt) of
        Inl e \<Rightarrow> Inl e
      | Inr h \<Rightarrow> (case toHAP_each rt cs opt of Inl e \<Rightarrow> Inl e | Inr hs \<Rightarrow> Inr (h # hs)))"

definition Service_toHAP ::
  "js_runtime \<Rightarrow> service \<Rightarrow> hap_options option \<Rightarrow> js_error + service_hap" where
  "Service_toHAP rt s opt =
     (case toHAP_each rt (characteristics s) opt of
        Inl e \<Rightarrow> Inl e
      | Inr hs \<Rightarrow>
          Inr \<lparr>shap_iid = s_iid s, shap_type = s_UUID s, shap_characteristics = hs,
               shap_primary = isPrimaryService s\<rparr>)"

section \<open>Bridge\<close>

text \<open>
  \<^verbatim>\<open>lib/Accessory\<close> is not among the sources: of an accessory the fields that
  \<^verbatim>\<open>Bridge\<close> reads and writes are kept, and the number of its listeners. A bridge is an
  accessory with the list of the accessories behind it; a call of its
  \<^verbatim>\<open>_updateConfiguration\<close> is recorded as an effect.
\<close>

record accessory =
  a_UUID :: string
  isBridge :: bool
  bridged :: bool
  reachable :: bool
  category :: nat
  services :: "service list"
  a_listeners :: nat

record bridge = accessory +
  bridgedAccessories :: "accessory list"

datatype b_effect = UpdateConfiguration

text \<open>
  \<^verbatim>\<open>Bridge.prototype.addBridgedAccessory\<close>. Lines 63 to 81 give the accessory its
  bridging-state service through \<^verbatim>\<open>getService\<close> and \<^verbatim>\<open>addService\<close> of
  \<^verbatim>\<open>lib/Accessory\<close>: they are the parameter \<open>bridgingState\<close>.
\<close>

definition addBridgedAccessory ::
  "(accessory \<Rightarrow> accessory) \<Rightarrow> bridge \<Rightarrow> accessory \<Rightarrow> bool
     \<Rightarrow> bridge \<times> b_effect list \<times> (js_error + accessory)" where
  "addBridgedAccessory bridgingState b a deferUpdate =
     (if isBridge a then (b, [], Inl (Error ''Cannot Bridge another Bridge!''))
      else
        (case find (\<lambda>existing. a_UUID existing = a_UUID a) (bridgedAccessories b) of
           Some existing \<Rightarrow>
             (b, [],
              Inl (Error (''Cannot add a bridged Accessory with the same UUID as another bridged Accessory: ''
                          @ a_UUID existing)))
         | None \<Rightarrow>
             (let a1 = bridgingState a;
                  a2 = a1\<lparr>a_listeners := a_listeners a1 + 2, bridged := True\<rparr>
              in (b\<lparr>bridgedAccessories := bridgedAccessories b @ [a2]\<rparr>,
                  (if \<not> deferUpdate then [UpdateConfiguration] else []), Inr a2))))"

text \<open>\<^verbatim>\<open>Bridge.prototype.removeBridgedAccessory\<close>: the bridge, the accessory given, the
  updates, and the result.\<close>

definition removeBridgedAccessory ::
  "bridge \<Rightarrow> accessory \<Rightarrow> bool \<Rightarrow> bridge \<times> accessory \<times> b_effect list \<times> (js_error + unit)" where
  "removeBridgedAccessory b a deferUpdate =
     (if isBridge a then (b, a, [], Inl (Error ''Cannot Bridge another Bridge!''))
      else
        (case first_index (\<lambda>existing. a_UUID existing = a_UUID a) (bridgedAccessories b) of
           Some i \<Rightarrow>
             (b\<lparr>bridgedAccessories := splice1 i (bridgedAccessories b)\<rparr>, a\<lparr>a_listeners := 0\<rparr>,
              (if \<not> deferUpdate then [UpdateConfiguration] else []), Inr ())
         | None \<Rightarrow> (b, a, [], Inl (Error ''Cannot find the bridged Accessory to remove.''))))"

section \<open>Example cells\<close>

text \<open>
  The examples hold numbers and strings, in cells whose format is absent,
  \<^verbatim>\<open>'string'\<close> or \<^verbatim>\<open>'int'\<close>. Of the builtins of the runtime they consult
  \<^verbatim>\<open>parseInt\<close> alone, on the integer 100, which it returns; the fields of the runtime of
  the examples return their argument, or NaN, and stand for nothing beyond that.
\<close>

definition example_runtime :: js_runtime where
  "example_runtime =
     \<lparr>StringToNumber = (\<lambda>s. NaN), ObjectToNumber = (\<lambda>r. NaN), parseInt = (\<lambda>v. v),
      parseFloat = (\<lambda>v. v), roundToStep = (\<lambda>v st. v),
      BufferOf = (\<lambda>v. Inl (TypeError ''not a string''))\<rparr>"

definition plain_props :: props where
  "plain_props =
     \<lparr>format = None, unit = None, minValue = None, maxValue = None, minStep = None,
      perms = [Perms_READ, Perms_WRITE], validValues = None, validValueRanges = None\<rparr>"

definition plain_cell :: characteristic where
  "plain_cell =
     \<lparr>ref = 0, classes = [], displayName = ''Level'', UUID = ''U-1'', iid = None,
      val = JNum (Fin 3), props = plain_props, get_listeners = 0, set_listeners = 0,
      change_listeners = 0\<rparr>"

text \<open>The value 150 between the bounds 0 and 100.\<close>

definition bounded_cell :: characteristic where
  "bounded_cell =
     plain_cell\<lparr>val := JNum (Fin 150),
                props := plain_props\<lparr>minValue := Some (Fin 0), maxValue := Some (Fin 100)\<rparr>\<rparr>"

text \<open>The same cell with the format \<^verbatim>\<open>'int'\<close>.\<close>

definition bounded_int_cell :: characteristic where
  "bounded_int_cell =
     plain_cell\<lparr>val := JNum (Fin 150),
                props := plain_props\<lparr>format := Some Formats_INT, minValue := Some (Fin 0),
                                        maxValue := Some (Fin 100)\<rparr>\<rparr>"

text \<open>The value 3 with \<^verbatim>\<open>minValue: 10\<close> and \<^verbatim>\<open>maxValue: 5\<close>.\<close>

definition inverted_cell :: characteristic where
  "inverted_cell =
     plain_cell\<lparr>props := plain_props\<lparr>minValue := Some (Fin 10), maxValue := Some (Fin 5)\<rparr>\<rparr>"

text \<open>A cell that can be written and not read.\<close>

definition write_only_cell :: characteristic where
  "write_only_cell = plain_cell\<lparr>props := plain_props\<lparr>perms := [Perms_WRITE]\<rparr>\<rparr>"

text \<open>255 times the letter a, then U+00E9: 257 bytes, the last character on the bytes
  256 and 257.\<close>

definition long_text :: jsstring where
  "long_text = replicate 255 0x61 @ [0xE9]"

definition text_cell :: characteristic where
  "text_cell =
     plain_cell\<lparr>val := JStr long_text, props := plain_props\<lparr>format := Some Formats_STRING\<rparr>\<rparr>"

text \<open>A cell with an override of the reading and one of the writing.\<close>

definition overridden_cell :: characteristic where
  "overridden_cell = plain_cell\<lparr>get_listeners := 1, set_listeners := 1\<rparr>"

text \<open>A service with the cell On, and Brightness among its optional cells.\<close>

definition on_cell :: characteristic where
  "on_cell =
     plain_cell\<lparr>ref := 1, classes := [1, 0], displayName := ''On'', UUID := ''U-On'',
                val := JBool False, change_listeners := 1\<rparr>"

definition Brightness :: ctor where
  "Brightness =
     \<lparr>ctor_id = 2, ctor_supers = [0], ctor_UUID = Some ''U-Brightness'',
      ctor_init = (\<lambda>args. plain_cell\<lparr>displayName := ''Brightness'', UUID := ''U-Brightness'',
                                         val := JNum (Fin 0)\<rparr>)\<rparr>"

definition lamp_service :: service where
  "lamp_service =
     \<lparr>s_displayName = ''Lamp'', s_UUID = ''U-Lightbulb'', subtype = None, s_iid = None,
      characteristics = [on_cell],
      optionalCharacteristics = [fst (construct Brightness [] 2)],
      isPrimaryService = None\<rparr>"

text \<open>The instance of Brightness made when the next object identity is 3, once the
  service listens to it.\<close>

definition brightness_cell :: characteristic where
  "brightness_cell =
     plain_cell\<lparr>ref := 3, classes := [2, 0], displayName := ''Brightness'',
                UUID := ''U-Brightness'', val := JNum (Fin 0), change_listeners := 1\<rparr>"

text \<open>A bridge with one accessory behind it.\<close>

definition sensor :: accessory where
  "sensor =
     \<lparr>a_UUID = ''A-1'', isBridge = False, bridged = True, reachable = True, category = 1,
      services = [], a_listeners = 2\<rparr>"

definition demo_bridge :: bridge where
  "demo_bridge =
     \<lparr>a_UUID = ''B-1'', isBridge = True, bridged = False, reachable = True, category = 2,
      services = [], a_listeners = 0, bridgedAccessories = [sensor]\<rparr>"


section \<open>The projection of a cell\<close>

lemma num_lt_trans: "num_lt a b \<Longrightarrow> num_lt b c \<Longrightarrow> num_lt a c"
  by (cases a; cases b; cases c) auto

lemma hapFields_value: "hap_value (hapFields c v) = Some v"
  by (simp add: hapFields_def Let_def split: option.splits)

lemma hapFields_maxLen: "hap_maxLen (hapFields c v) = None"
  by (simp add: hapFields_def Let_def split: option.splits)

text \<open>Without a format the value sent is the clamped one, when the cell can be read and
  the values are not left out.\<close>

lemma toHAP_value_unformatted:
  assumes "format (props c) = None" and "Perms_READ \<in> set (perms (props c))"
    and "\<not> omit_requested opt"
  shows "map_sum id hap_value (snd (toHAP rt c opt))
       = Inr (Some (clampValue rt (props c) (val c)))"
  using assms
  by (simp add: toHAP_def stringLimit_def coerceValue_def hapFields_def Let_def
      split: option.splits)

text \<open>What a readable cell sends, values not left out: the clamped value after the
  coercion by format; on a string cell, when the Buffer of the clamped value has at most
  256 bytes.\<close>

lemma toHAP_value_sent:
  assumes "format (props c) \<noteq> Some Formats_STRING" and "Perms_READ \<in> set (perms (props c))"
    and "\<not> omit_requested opt"
  shows "map_sum id hap_value (snd (toHAP rt c opt))
       = Inr (Some (coerceValue rt (props c) (clampValue rt (props c) (val c))))"
  using assms
  by (simp add: toHAP_def stringLimit_def hapFields_value Let_def)

lemma toHAP_string_value_sent:
  assumes "format (props c) = Some Formats_STRING" and "Perms_READ \<in> set (perms (props c))"
    and "\<not> omit_requested opt"
    and "Buffer_utf8 rt (clampValue rt (props c) (val c)) = Inr bs" and "length bs \<le> 256"
  shows "map_sum id hap_value (snd (toHAP rt c opt))
       = Inr (Some (clampValue rt (props c) (val c)))"
  using assms
  by (simp add: toHAP_def stringLimit_def coerceValue_def hapFields_value Let_def)

text \<open>
  C1, as amended. When both bounds are set and \<^verbatim>\<open>minValue\<close> is not greater than
  \<^verbatim>\<open>maxValue\<close>, the value that \<^verbatim>\<open>toHAP\<close> has before the coercion by format is
  \<^verbatim>\<open>minValue\<close> if the cached value is below it, \<^verbatim>\<open>maxValue\<close> if the cached value is
  above it, and the cached value if it is neither. The object returned for a readable
  cell, values not left out, carries that value after the coercion by its format,
  whatever the format other than \<^verbatim>\<open>'string'\<close> (with no format, that value itself); on a
  string cell it carries that value when its Buffer has at most 256 bytes.
\<close>

theorem toHAP_clamps:
  assumes "minValue (props c) = Some mn" and "maxValue (props c) = Some mx"
    and "\<not> num_lt mx mn"
  shows "(js_lt rt (val c) mn \<longrightarrow> clampValue rt (props c) (val c) = JNum mn)
       \<and> (js_gt rt (val c) mx \<longrightarrow> clampValue rt (props c) (val c) = JNum mx)
       \<and> (\<not> js_lt rt (val c) mn \<and> \<not> js_gt rt (val c) mx
            \<longrightarrow> clampValue rt (props c) (val c) = val c)
       \<and> (format (props c) = None \<and> Perms_READ \<in> set (perms (props c)) \<and> \<not> omit_requested opt
            \<longrightarrow> map_sum id hap_value (snd (toHAP rt c opt))
                = Inr (Some (clampValue rt (props c) (val c))))
       \<and> (format (props c) \<noteq> Some Formats_STRING \<and> Perms_READ \<in> set (perms (props c))
            \<and> \<not> omit_requested opt
            \<longrightarrow> map_sum id hap_value (snd (toHAP rt c opt))
                = Inr (Some (coerceValue rt (props c)
                        (if js_lt rt (val c) mn then JNum mn
                         else if js_gt rt (val c) mx then JNum mx else val c))))
       \<and> (format (props c) = Some Formats_STRING \<and> Perms_READ \<in> set (perms (props c))
            \<and> \<not> omit_requested opt
            \<and> Buffer_utf8 rt (clampValue rt (props c) (val c)) = Inr bs \<and> length bs \<le> 256
            \<longrightarrow> map_sum id hap_value (snd (toHAP rt c opt))
                = Inr (Some (if js_lt rt (val c) mn then JNum mn
                             else if js_gt rt (val c) mx then JNum mx else val c)))"
proof -
  have below: "clampValue rt (props c) (val c) = JNum mn" if "js_lt rt (val c) mn"
    using that assms by (simp add: clampValue_def js_lt_def js_gt_def)
  have above: "clampValue rt (props c) (val c) = JNum mx" if "js_gt rt (val c) mx"
  proof -
    from that have "num_lt mx (ToNumber rt (val c))" by (simp add: js_gt_def)
    with assms(3) have "\<not> num_lt (ToNumber rt (val c)) mn"
      using num_lt_trans by blast
    with that assms show ?thesis by (simp add: clampValue_def js_lt_def js_gt_def)
  qed
  have inside: "clampValue rt (props c) (val c) = val c"
    if "\<not> js_lt rt (val c) mn" and "\<not> js_gt rt (val c) mx"
    using that assms by (simp add: clampValue_def)
  have clamped: "clampValue rt (props c) (val c)
      = (if js_lt rt (val c) mn then JNum mn
         else if js_gt rt (val c) mx then JNum mx else val c)"
    using below above inside by simp
  have sent: "map_sum id hap_value (snd (toHAP rt c opt))
        = Inr (Some (coerceValue rt (props c)
                        (if js_lt rt (val c) mn then JNum mn
                         else if js_gt rt (val c) mx then JNum mx else val c)))"
    if "format (props c) \<noteq> Some Formats_STRING" and "Perms_READ \<in> set (perms (props c))"
      and "\<not> omit_requested opt"
    using toHAP_value_sent [OF that, of rt] by (simp only: clamped)
  have text_sent: "map_sum id hap_value (snd (toHAP rt c opt))
        = Inr (Some (if js_lt rt (val c) mn then JNum mn
                     else if js_gt rt (val c) mx then JNum mx else val c))"
    if "format (props c) = Some Formats_STRING" and "Perms_READ \<in> set (perms (props c))"
      and "\<not> omit_requested opt"
      and "Buffer_utf8 rt (clampValue rt (props c) (val c)) = Inr bs" and "length bs \<le> 256"
    using toHAP_string_value_sent [OF that] by (simp only: clamped)
  show ?thesis
    using below above inside toHAP_value_unformatted sent text_sent by blast
qed

text \<open>The theorem at the value 150 between 0 and 100, on a cell without a format and on
  a cell of format \<^verbatim>\<open>'int'\<close>: the value sent is 100.\<close>

theorem toHAP_clamps_witness:
  "js_gt example_runtime (val bounded_cell) (Fin 100)
   \<and> clampValue example_runtime (props bounded_cell) (val bounded_cell) = JNum (Fin 100)
   \<and> map_sum id hap_value (snd (toHAP example_runtime bounded_cell None))
       = Inr (Some (JNum (Fin 100)))
   \<and> format (props bounded_int_cell) = Some Formats_INT
   \<and> js_gt example_runtime (val bounded_int_cell) (Fin 100)
   \<and> map_sum id hap_value (snd (toHAP example_runtime bounded_int_cell None))
       = Inr (Some (parseInt example_runtime (JNum (Fin 100))))
   \<and> parseInt example_runtime (JNum (Fin 100)) = JNum (Fin 100)"
proof -
  have a: "js_gt example_runtime (val bounded_cell) (Fin 100)
     \<and> clampValue example_runtime (props bounded_cell) (val bounded_cell) = JNum (Fin 100)
     \<and> map_sum id hap_value (snd (toHAP example_runtime bounded_cell None))
         = Inr (Some (JNum (Fin 100)))"
    using toHAP_clamps [of bounded_cell "Fin 0" "Fin 100" example_runtime None]
    by (simp add: bounded_cell_def plain_cell_def plain_props_def js_gt_def omit_requested_def
        Perms_READ_def Perms_WRITE_def)
  have b: "format (props bounded_int_cell) = Some Formats_INT
     \<and> js_gt example_runtime (val bounded_int_cell) (Fin 100)
     \<and> map_sum id hap_value (snd (toHAP example_runtime bounded_int_cell None))
         = Inr (Some (parseInt example_runtime (JNum (Fin 100))))"
    using toHAP_clamps [of bounded_int_cell "Fin 0" "Fin 100" example_runtime None]
    by (simp add: bounded_int_cell_def plain_cell_def plain_props_def js_gt_def js_lt_def
        omit_requested_def coerceValue_def Perms_READ_def Perms_WRITE_def)
  have c: "parseInt example_runtime (JNum (Fin 100)) = JNum (Fin 100)"
    by (simp add: example_runtime_def)
  from a b c show ?thesis by simp
qed

text \<open>
  C1 as stated fails when \<^verbatim>\<open>minValue\<close> is greater than \<^verbatim>\<open>maxValue\<close>: the value 3 is
  below the lower bound 10, is set to 10 by line 224 and then to 5 by line 225, and 5 is
  what is sent.
\<close>

theorem toHAP_clamps_inverted_bounds:
  "minValue (props inverted_cell) = Some (Fin 10)
   \<and> maxValue (props inverted_cell) = Some (Fin 5)
   \<and> js_lt example_runtime (val inverted_cell) (Fin 10)
   \<and> clampValue example_runtime (props inverted_cell) (val inverted_cell) = JNum (Fin 5)
   \<and> map_sum id hap_value (snd (toHAP example_runtime inverted_cell None))
       = Inr (Some (JNum (Fin 5)))
   \<and> JNum (Fin 5) \<noteq> JNum (Fin 10)"
  by (simp add: inverted_cell_def plain_cell_def plain_props_def js_lt_def js_gt_def
      clampValue_def toHAP_def coerceValue_def stringLimit_def hapFields_def omit_requested_def
      Perms_READ_def Perms_WRITE_def Let_def)

text \<open>Only the Buffer of a string cell can throw.\<close>

lemma toHAP_returns:
  assumes "format (props c) \<noteq> Some Formats_STRING"
  shows "\<exists>h. snd (toHAP rt c opt) = Inr h"
  using assms by (simp add: toHAP_def stringLimit_def Let_def)

text \<open>
  C4. When the permissions of a cell do not contain \<^verbatim>\<open>'pr'\<close>, the object that
  \<^verbatim>\<open>toHAP\<close> returns has no key \<^verbatim>\<open>value\<close>, whatever the cached value and the options.
\<close>

theorem toHAP_unreadable:
  assumes "Perms_READ \<notin> set (perms (props c))" and "snd (toHAP rt c opt) = Inr h"
  shows "hap_value h = None"
  using assms by (auto simp add: toHAP_def Let_def split: sum.splits if_splits)

text \<open>The theorem at a cell that can only be written, with no options.\<close>

theorem toHAP_unreadable_witness:
  "Perms_READ \<notin> set (perms (props write_only_cell))
   \<and> map_sum id hap_value (snd (toHAP example_runtime write_only_cell None)) = Inr None"
proof -
  have r: "snd (toHAP example_runtime write_only_cell None)
      = Inr (projr (snd (toHAP example_runtime write_only_cell None)))"
    by (simp add: toHAP_def write_only_cell_def plain_cell_def plain_props_def
        stringLimit_def Let_def)
  have p: "Perms_READ \<notin> set (perms (props write_only_cell))"
    by (simp add: write_only_cell_def plain_cell_def plain_props_def Perms_READ_def
        Perms_WRITE_def)
  have "hap_value (projr (snd (toHAP example_runtime write_only_cell None))) = None"
    by (rule toHAP_unreadable [OF p r])
  with r have "map_sum id hap_value (snd (toHAP example_runtime write_only_cell None)) = Inr None"
    by (metis map_sum.simps(2))
  with p show ?thesis by simp
qed

text \<open>
  C10. \<^verbatim>\<open>toHAP\<close> leaves the cell as it found it: the cached value, the props, the name,
  the UUID and the iid of the receiver after the call are those before it, whatever
  the options; the clamping, the coercion and the truncation change the object returned
  only.
\<close>

theorem toHAP_leaves_cell: "fst (toHAP rt c opt) = c"
  by (simp add: toHAP_def Let_def split: sum.splits)

subsection \<open>The length rules of a string cell\<close>

lemma utf8_encode_append: "utf8_encode (xs @ ys) = utf8_encode xs @ utf8_encode ys"
  by (simp add: utf8_encode_def)

lemma utf8_encode_ascii: "a < 0x80 \<Longrightarrow> utf8_encode (replicate n a) = replicate n a"
  by (induction n) (simp_all add: utf8_encode_def utf8_char_def)

lemma utf8_decode_ascii:
  "a < 0x80 \<Longrightarrow> utf8_decode (replicate n a @ bs) = replicate n a @ utf8_decode bs"
  by (induction n) simp_all

lemma long_text_bytes: "utf8_encode long_text = replicate 255 0x61 @ [0xC3, 0xA9]"
  by (simp add: long_text_def utf8_encode_append utf8_encode_ascii)
     (simp add: utf8_encode_def utf8_char_def)

lemma long_text_cut:
  "utf8_decode (take 256 (utf8_encode long_text)) = replicate 255 0x61 @ [0xFFFD]"
  by (simp add: long_text_bytes utf8_decode_ascii)

lemma cut_bytes: "length (utf8_encode (replicate 255 0x61 @ [0xFFFD])) = 258"
  by (simp add: utf8_encode_append utf8_encode_ascii) (simp add: utf8_encode_def utf8_char_def)

lemma utf8_encode_all_ascii: "list_all (\<lambda>x. x < 0x80) s \<Longrightarrow> utf8_encode s = s"
  by (induction s) (simp_all add: utf8_encode_def utf8_char_def)

lemma utf8_decode_all_ascii: "list_all (\<lambda>x. x < 0x80) bs \<Longrightarrow> utf8_decode bs = bs"
  by (induction bs) simp_all

lemma list_all_take: "list_all P xs \<Longrightarrow> list_all P (take n xs)"
  by (simp add: list_all_iff) (meson in_set_takeD)

text \<open>The three length rules on the value \<open>JStr s\<close> that a string cell has after the
  clamping, for a cell that can be read, values not left out.\<close>

lemma toHAP_string_rules:
  assumes "format (props c) = Some Formats_STRING"
    and "clampValue rt (props c) (val c) = JStr s"
    and "Perms_READ \<in> set (perms (props c))" and "\<not> omit_requested opt"
  shows "snd (toHAP rt c opt) = Inr h \<Longrightarrow>
         (if 256 < length (utf8_encode s)
          then hap_maxLen h = Some 256
             \<and> hap_value h = Some (JStr (utf8_decode (take 256 (utf8_encode s))))
          else if 64 < length (utf8_encode s)
          then hap_maxLen h = Some (length (utf8_encode s)) \<and> hap_value h = Some (JStr s)
          else hap_maxLen h = None \<and> hap_value h = Some (JStr s))"
  using assms
  by (auto simp add: toHAP_def stringLimit_def coerceValue_def Buffer_utf8_def hapFields_value
      hapFields_maxLen Let_def)

text \<open>On a string of ASCII characters the value cut is 256 bytes long.\<close>

lemma ascii_cut_length:
  assumes "list_all (\<lambda>x. x < 0x80) s" and "256 < length (utf8_encode s)"
  shows "length (utf8_encode (utf8_decode (take 256 (utf8_encode s)))) = 256"
proof -
  have e: "utf8_encode s = s" using assms(1) by (rule utf8_encode_all_ascii)
  have a: "list_all (\<lambda>x. x < 0x80) (take 256 s)" using assms(1) by (rule list_all_take)
  from a have "utf8_decode (take 256 s) = take 256 s" by (rule utf8_decode_all_ascii)
  moreover from a have "utf8_encode (take 256 s) = take 256 s" by (rule utf8_encode_all_ascii)
  ultimately show ?thesis using assms(2) e by simp
qed

text \<open>
  C3, at a string of 257 bytes whose last character lies across the byte 256: the
  object carries \<^verbatim>\<open>maxLen\<close> 256, and its value is the first 255 characters followed by
  U+FFFD, which is 258 bytes of UTF-8 and not 256. The first 256 bytes end in the middle
  of a character, and \<^verbatim>\<open>toString\<close> turns the cut character into U+FFFD, three bytes long.
\<close>

theorem toHAP_truncation_splits_character:
  "length (utf8_encode long_text) = 257
   \<and> map_sum id hap_maxLen (snd (toHAP example_runtime text_cell None)) = Inr (Some 256)
   \<and> map_sum id hap_value (snd (toHAP example_runtime text_cell None))
       = Inr (Some (JStr (replicate 255 0x61 @ [0xFFFD])))
   \<and> length (utf8_encode (replicate 255 0x61 @ [0xFFFD])) = 258"
proof -
  have v: "coerceValue example_runtime (props text_cell)
             (clampValue example_runtime (props text_cell) (val text_cell)) = JStr long_text"
    by (simp add: text_cell_def plain_cell_def plain_props_def coerceValue_def clampValue_def)
  have f: "format (props text_cell) = Some Formats_STRING"
    by (simp add: text_cell_def plain_cell_def plain_props_def)
  have p: "Perms_READ \<in> set (perms (props text_cell))"
    by (simp add: text_cell_def plain_cell_def plain_props_def)
  have n: "length (utf8_encode long_text) = 257"
    by (simp add: long_text_bytes)
  show ?thesis
    using n p f long_text_cut cut_bytes
    by (simp add: toHAP_def v stringLimit_def Buffer_utf8_def Let_def omit_requested_def)
qed

section \<open>Reading and writing through an override\<close>

text \<open>
  C2. When the override of a request calls the latched function with an error (a first
  argument that is true), the caller's callback is called with that error and nothing
  else happens: the cell is as it was when the override answered, and no
  \<^verbatim>\<open>'change'\<close> is emitted. This holds for \<^verbatim>\<open>getValue\<close> on a cell with a listener of
  \<^verbatim>\<open>'get'\<close> and for \<^verbatim>\<open>setValue\<close> on a cell with a listener of \<^verbatim>\<open>'set'\<close>.
\<close>

theorem override_error:
  assumes "truthy err"
  shows "(0 < get_listeners c \<longrightarrow>
            getValue c cb context conn = (c, [Emit_get context conn], Some (GetRequest cb context))
            \<and> resolve (GetRequest cb context) False (err, v) s = (True, s, call_back cb [err]))
       \<and> (0 < set_listeners (fst t) \<longrightarrow>
            setValue t x cb context conn = (t, [Emit_set x context conn], Some (SetRequest x cb context))
            \<and> resolve (SetRequest x cb context) False (err, v) s = (True, s, call_back cb [err]))
       \<and> call_back (Some f) [err] = [Call f [err]]
       \<and> filter is_change (call_back cb [err]) = []"
  using assms
  by (simp add: getValue_def setValue_def once_def getValue_done_def setValue_done_def
      call_back_def split: option.splits)

text \<open>The theorem at a cell with both overrides, a callback and an error object.\<close>

theorem override_error_witness:
  "truthy (JObj 9)
   \<and> getValue overridden_cell (Some 1) JNull JNull
       = (overridden_cell, [Emit_get JNull JNull], Some (GetRequest (Some 1) JNull))
   \<and> resolve (GetRequest (Some 1) JNull) False (JObj 9, JUndefined) (overridden_cell, 10)
       = (True, (overridden_cell, 10), [Call 1 [JObj 9]])
   \<and> setValue (overridden_cell, 10) (JNum (Fin 7)) (Some 1) JNull JNull
       = ((overridden_cell, 10), [Emit_set (JNum (Fin 7)) JNull JNull],
          Some (SetRequest (JNum (Fin 7)) (Some 1) JNull))
   \<and> resolve (SetRequest (JNum (Fin 7)) (Some 1) JNull) False (JObj 9, JUndefined)
         (overridden_cell, 10)
       = (True, (overridden_cell, 10), [Call 1 [JObj 9]])"
proof -
  have t: "truthy (JObj 9)" by simp
  have g: "0 < get_listeners overridden_cell" by (simp add: overridden_cell_def)
  have s: "0 < set_listeners (fst (overridden_cell, 10::nat))" by (simp add: overridden_cell_def)
  show ?thesis
    using t g s
      override_error [OF t, of overridden_cell "Some 1" JNull JNull JUndefined
        "(overridden_cell, 10)" "(overridden_cell, 10)" "JNum (Fin 7)" 1]
    by (simp add: call_back_def)
qed

lemma resolve_called: "resolve r True a s = (True, s, [])"
  by (cases r) (simp_all add: once_def)

lemma resolve_sets_latch: "fst (resolve r called a s) = True"
  by (cases r) (simp_all add: once_def)

lemma resolve_all_called: "resolve_all r True as s = (True, s, [])"
  by (induction as) (simp_all add: resolve_called Let_def)

lemma store_value_calls: "length (filter is_call (snd (store_value cb args context x s))) \<le> Suc 0"
  by (simp add: store_value_def Let_def call_back_def split: option.splits)

lemma call_back_calls: "length (filter is_call (call_back cb args)) \<le> Suc 0"
  by (simp add: call_back_def split: option.splits)

lemma resolve_calls: "length (filter is_call (snd (snd (resolve r called a s)))) \<le> 1"
  by (cases r)
     (simp_all add: once_def getValue_done_def setValue_done_def store_value_calls
        call_back_calls)

text \<open>
  C7, with the latch as the spec describes it. A call of the latched function of a
  request sets the latch, and once it is set a further call does nothing, whatever the
  state of the cell then: no callback, the cell as it is, no event. So of any sequence of
  calls by the override only the first one counts, and the caller's callback is called at
  most once for the request.
\<close>

theorem latch_once:
  "fst (resolve r called a s) = True
   \<and> resolve r True a s = (True, s, [])
   \<and> resolve_all r False (a # as) s = resolve r False a s
   \<and> length (filter is_call (snd (snd (resolve_all r called as s)))) \<le> 1"
proof -
  have one: "resolve_all r False (b # bs) t = resolve r False b t" for b bs t
  proof -
    have "fst (resolve r False b t) = True" by (rule resolve_sets_latch)
    then show ?thesis
      by (simp add: Let_def resolve_all_called prod_eq_iff)
  qed
  have "length (filter is_call (snd (snd (resolve_all r called as s)))) \<le> 1"
  proof (cases called)
    case True
    then show ?thesis by (simp add: resolve_all_called)
  next
    case False
    then show ?thesis
    proof (cases as)
      case Nil
      then show ?thesis by simp
    next
      case (Cons b bs)
      with False one [of b bs s] resolve_calls [of r False b s] show ?thesis by simp
    qed
  qed
  with one resolve_called resolve_sets_latch show ?thesis by blast
qed

section \<open>Updating the cached value\<close>

lemma strict_eq_refl: "strict_eq a a = (a \<noteq> JNum NaN)"
proof (cases a)
  case (JNum n)
  then show ?thesis by (cases n) simp_all
qed simp_all

lemma getDefaultValue_not_NaN: "fst (getDefaultValue c h) \<noteq> JNum NaN"
  apply (simp add: getDefaultValue_def Let_def split: option.splits)
  apply auto
  done

lemma getDefaultValue_stable:
  assumes "format (props c) \<noteq> Some Formats_ARRAY" and "format (props c) \<noteq> Some Formats_DICTIONARY"
  shows "getDefaultValue (c\<lparr>val := v\<rparr>) h = (fst (getDefaultValue c h), h)"
    and "snd (getDefaultValue c h) = h"
  using assms by (auto simp add: getDefaultValue_def Let_def split: option.splits)

text \<open>
  C9, as amended. Let \<open>x\<close> be a value other than NaN, and not \<^verbatim>\<open>null\<close> or
  \<^verbatim>\<open>undefined\<close> on a cell whose format is array or dictionary. Of two calls
  \<^verbatim>\<open>updateValue(x)\<close> in succession the first emits one \<^verbatim>\<open>'change'\<close>, with the old value and
  the value stored, when the stored value differs from the old one under \<^verbatim>\<open>!==\<close>, and none
  otherwise; the second emits none and stores the same value. The value stored is \<open>x\<close>
  unless \<open>x\<close> is \<^verbatim>\<open>null\<close> or \<^verbatim>\<open>undefined\<close>, where it is the default of the format; the
  cell after the first call is the cell before it with that value.
\<close>

theorem updateValue_twice:
  assumes "x \<noteq> JNum NaN"
    and "is_nullish x \<longrightarrow> format (props c) \<noteq> Some Formats_ARRAY \<and> format (props c) \<noteq> Some Formats_DICTIONARY"
  shows "filter is_change (snd (updateValue (c, h) x cb context))
           = (if strict_eq (val c) (val (fst (fst (updateValue (c, h) x cb context)))) then []
              else [Emit_change (val c) (val (fst (fst (updateValue (c, h) x cb context)))) context])
       \<and> filter is_change (snd (updateValue (fst (updateValue (c, h) x cb context)) x cb context)) = []
       \<and> val (fst (fst (updateValue (fst (updateValue (c, h) x cb context)) x cb context)))
           = val (fst (fst (updateValue (c, h) x cb context)))
       \<and> (\<not> is_nullish x \<longrightarrow> val (fst (fst (updateValue (c, h) x cb context))) = x)
       \<and> (is_nullish x \<longrightarrow>
            val (fst (fst (updateValue (c, h) x cb context))) = fst (getDefaultValue c h))
       \<and> fst (fst (updateValue (c, h) x cb context))
           = c\<lparr>val := (if is_nullish x then fst (getDefaultValue c h) else x)\<rparr>"
proof (cases "is_nullish x")
  case False
  with assms(1) show ?thesis
    by (simp add: updateValue_def store_value_def Let_def call_back_def strict_eq_refl
        split: option.splits)
next
  case True
  with assms(2) have f: "format (props c) \<noteq> Some Formats_ARRAY"
    "format (props c) \<noteq> Some Formats_DICTIONARY"
    by simp_all
  from True show ?thesis
    using getDefaultValue_not_NaN [of c h]
    by (simp add: updateValue_def store_value_def Let_def call_back_def strict_eq_refl
        getDefaultValue_stable [OF f] split: option.splits)
qed

text \<open>The theorem at the value 7 and at \<^verbatim>\<open>null\<close>, on a cell without a format that holds
  3: the default stored for \<^verbatim>\<open>null\<close> is 0.\<close>

theorem updateValue_twice_witness:
  "filter is_change (snd (updateValue (plain_cell, 0) (JNum (Fin 7)) None JNull))
     = [Emit_change (JNum (Fin 3)) (JNum (Fin 7)) JNull]
   \<and> filter is_change
        (snd (updateValue (fst (updateValue (plain_cell, 0) (JNum (Fin 7)) None JNull)) (JNum (Fin 7)) None JNull))
     = []
   \<and> is_nullish JNull
   \<and> fst (getDefaultValue plain_cell 0) = JNum (Fin 0)
   \<and> val (fst (fst (updateValue (plain_cell, 0) JNull None JNull))) = JNum (Fin 0)
   \<and> filter is_change (snd (updateValue (plain_cell, 0) JNull None JNull))
     = [Emit_change (JNum (Fin 3)) (JNum (Fin 0)) JNull]
   \<and> filter is_change
        (snd (updateValue (fst (updateValue (plain_cell, 0) JNull None JNull)) JNull None JNull))
     = []"
proof -
  have d: "fst (getDefaultValue plain_cell 0) = JNum (Fin 0)"
    by (simp add: getDefaultValue_def plain_cell_def plain_props_def)
  have f: "format (props plain_cell) = None" "val plain_cell = JNum (Fin 3)"
    by (simp_all add: plain_cell_def plain_props_def)
  have a: "filter is_change (snd (updateValue (plain_cell, 0) (JNum (Fin 7)) None JNull))
       = [Emit_change (JNum (Fin 3)) (JNum (Fin 7)) JNull]
     \<and> filter is_change
          (snd (updateValue (fst (updateValue (plain_cell, 0) (JNum (Fin 7)) None JNull)) (JNum (Fin 7)) None JNull))
       = []"
    using updateValue_twice [of "JNum (Fin 7)" plain_cell 0 None JNull] f
    by simp
  have b: "val (fst (fst (updateValue (plain_cell, 0) JNull None JNull))) = JNum (Fin 0)
     \<and> filter is_change (snd (updateValue (plain_cell, 0) JNull None JNull))
       = [Emit_change (JNum (Fin 3)) (JNum (Fin 0)) JNull]
     \<and> filter is_change
          (snd (updateValue (fst (updateValue (plain_cell, 0) JNull None JNull)) JNull None JNull))
       = []"
    using updateValue_twice [of JNull plain_cell 0 None JNull] f d
    by simp
  from a b d show ?thesis by simp
qed

text \<open>C9 as stated fails at NaN, which differs from itself under \<^verbatim>\<open>!==\<close>: both
  calls emit \<^verbatim>\<open>'change'\<close>.\<close>

theorem updateValue_twice_NaN:
  "filter is_change (snd (updateValue (plain_cell, 0) (JNum NaN) None JNull))
     = [Emit_change (JNum (Fin 3)) (JNum NaN) JNull]
   \<and> filter is_change
        (snd (updateValue (fst (updateValue (plain_cell, 0) (JNum NaN) None JNull)) (JNum NaN) None JNull))
     = [Emit_change (JNum NaN) (JNum NaN) JNull]"
  by (simp add: updateValue_def store_value_def Let_def call_back_def plain_cell_def)

section \<open>Membership of services and bridges\<close>

lemma find_Some_ex: "(\<exists>x\<in>set xs. P x) \<Longrightarrow> \<exists>y. find P xs = Some y"
  by (induction xs) auto

lemma first_index_None: "(first_index P xs = None) = (\<not> (\<exists>x\<in>set xs. P x))"
  by (induction xs) auto

lemma add_instance_dup:
  assumes "find (\<lambda>existing. UUID existing = UUID c) (characteristics s) = Some y"
  shows "fst (addCharacteristic (s, h) (Instance c) args) = (s, h)"
    and "fst (snd (addCharacteristic (s, h) (Instance c) args)) = []"
    and "isl (snd (snd (addCharacteristic (s, h) (Instance c) args)))"
  using assms by (simp_all add: addCharacteristic_def)


lemma add_constructor_dup:
  assumes "find (\<lambda>existing. UUID existing = UUID (ctor_init F args)) (characteristics s) = Some y"
  shows "fst (fst (addCharacteristic (s, h) (Constructor F) args)) = s"
    and "fst (snd (addCharacteristic (s, h) (Constructor F) args)) = []"
    and "isl (snd (snd (addCharacteristic (s, h) (Constructor F) args)))"
  using assms by (simp_all add: addCharacteristic_def construct_def)

lemma add_bridge_isBridge:
  assumes "isBridge a"
  shows "addBridgedAccessory bridgingState b a deferUpdate = (b, [], Inl (Error ''Cannot Bridge another Bridge!''))"
  using assms by (simp add: addBridgedAccessory_def)

lemma add_bridge_dup:
  assumes "find (\<lambda>existing. a_UUID existing = a_UUID a) (bridgedAccessories b) = Some y"
  shows "fst (addBridgedAccessory bridgingState b a deferUpdate) = b"
    and "fst (snd (addBridgedAccessory bridgingState b a deferUpdate)) = []"
    and "isl (snd (snd (addBridgedAccessory bridgingState b a deferUpdate)))"
  using assms by (simp_all add: addBridgedAccessory_def)

text \<open>
  C5. Adding a cell whose UUID is the UUID of a cell of the service throws and leaves the
  service, so its list of cells, as it was, and nothing is emitted; this holds for an
  instance and for a constructor whose instance has that UUID. Adding to a bridge an
  accessory that is a bridge, or whose UUID is that of a bridged accessory, throws and
  leaves the bridge as it was.
\<close>

theorem add_duplicate_fails:
  "(UUID c \<in> UUID ` set (characteristics s) \<longrightarrow>
      fst (fst (addCharacteristic (s, h) (Instance c) args)) = s
      \<and> fst (snd (addCharacteristic (s, h) (Instance c) args)) = []
      \<and> isl (snd (snd (addCharacteristic (s, h) (Instance c) args))))
   \<and> (UUID (ctor_init F args) \<in> UUID ` set (characteristics s) \<longrightarrow>
      fst (fst (addCharacteristic (s, h) (Constructor F) args)) = s
      \<and> fst (snd (addCharacteristic (s, h) (Constructor F) args)) = []
      \<and> isl (snd (snd (addCharacteristic (s, h) (Constructor F) args))))
   \<and> (isBridge a \<or> a_UUID a \<in> a_UUID ` set (bridgedAccessories b) \<longrightarrow>
      fst (addBridgedAccessory bridgingState b a deferUpdate) = b
      \<and> fst (snd (addBridgedAccessory bridgingState b a deferUpdate)) = []
      \<and> isl (snd (snd (addBridgedAccessory bridgingState b a deferUpdate))))"
proof -
  have one: "fst (fst (addCharacteristic (s, h) (Instance c) args)) = s
      \<and> fst (snd (addCharacteristic (s, h) (Instance c) args)) = []
      \<and> isl (snd (snd (addCharacteristic (s, h) (Instance c) args)))"
    if "UUID c \<in> UUID ` set (characteristics s)"
  proof -
    from that have "\<exists>x\<in>set (characteristics s). UUID x = UUID c" by (simp add: image_iff) metis
    then obtain y where "find (\<lambda>existing. UUID existing = UUID c) (characteristics s) = Some y"
      using find_Some_ex [of "characteristics s" "\<lambda>existing. UUID existing = UUID c"] by blast
    then show ?thesis using add_instance_dup [of c s y h args] by simp
  qed
  have two: "fst (fst (addCharacteristic (s, h) (Constructor F) args)) = s
      \<and> fst (snd (addCharacteristic (s, h) (Constructor F) args)) = []
      \<and> isl (snd (snd (addCharacteristic (s, h) (Constructor F) args)))"
    if "UUID (ctor_init F args) \<in> UUID ` set (characteristics s)"
  proof -
    from that have "\<exists>x\<in>set (characteristics s). UUID x = UUID (ctor_init F args)"
      by (simp add: image_iff) metis
    then obtain y where
      "find (\<lambda>existing. UUID existing = UUID (ctor_init F args)) (characteristics s) = Some y"
      using find_Some_ex [of "characteristics s" "\<lambda>existing. UUID existing = UUID (ctor_init F args)"]
      by blast
    then show ?thesis using add_constructor_dup [of F args s y h] by simp
  qed
  have three: "fst (addBridgedAccessory bridgingState b a deferUpdate) = b
      \<and> fst (snd (addBridgedAccessory bridgingState b a deferUpdate)) = []
      \<and> isl (snd (snd (addBridgedAccessory bridgingState b a deferUpdate)))"
    if d: "isBridge a \<or> a_UUID a \<in> a_UUID ` set (bridgedAccessories b)"
  proof (cases "isBridge a")
    case True
    then show ?thesis by (simp add: add_bridge_isBridge)
  next
    case False
    with d have "\<exists>x\<in>set (bridgedAccessories b). a_UUID x = a_UUID a"
      by (simp add: image_iff) metis
    then obtain y where
      "find (\<lambda>existing. a_UUID existing = a_UUID a) (bridgedAccessories b) = Some y"
      using find_Some_ex [of "bridgedAccessories b" "\<lambda>existing. a_UUID existing = a_UUID a"]
      by blast
    then show ?thesis using add_bridge_dup [of a b y bridgingState deferUpdate] by simp
  qed
  from one two three show ?thesis by blast
qed

text \<open>The theorem at a second cell with the UUID of On, and at a second accessory with
  the UUID of the sensor.\<close>

theorem add_duplicate_fails_witness:
  "UUID (on_cell\<lparr>ref := 5\<rparr>) \<in> UUID ` set (characteristics lamp_service)
   \<and> fst (fst (addCharacteristic (lamp_service, 6) (Instance (on_cell\<lparr>ref := 5\<rparr>)) [])) = lamp_service
   \<and> isl (snd (snd (addCharacteristic (lamp_service, 6) (Instance (on_cell\<lparr>ref := 5\<rparr>)) [])))
   \<and> UUID (ctor_init (Brightness\<lparr>ctor_init := (\<lambda>args. on_cell)\<rparr>) []) \<in> UUID ` set (characteristics lamp_service)
   \<and> fst (fst (addCharacteristic (lamp_service, 6) (Constructor (Brightness\<lparr>ctor_init := (\<lambda>args. on_cell)\<rparr>)) [])) = lamp_service
   \<and> a_UUID (sensor\<lparr>bridged := False\<rparr>) \<in> a_UUID ` set (bridgedAccessories demo_bridge)
   \<and> fst (addBridgedAccessory id demo_bridge (sensor\<lparr>bridged := False\<rparr>) False) = demo_bridge
   \<and> isl (snd (snd (addBridgedAccessory id demo_bridge (sensor\<lparr>bridged := False\<rparr>) False)))"
proof -
  have a: "UUID (on_cell\<lparr>ref := 5\<rparr>) \<in> UUID ` set (characteristics lamp_service)"
    by (simp add: lamp_service_def)
  have b: "UUID (ctor_init (Brightness\<lparr>ctor_init := (\<lambda>args. on_cell)\<rparr>) []) \<in> UUID ` set (characteristics lamp_service)"
    by (simp add: lamp_service_def)
  have c: "a_UUID (sensor\<lparr>bridged := False\<rparr>) \<in> a_UUID ` set (bridgedAccessories demo_bridge)"
    by (simp add: demo_bridge_def)
  show ?thesis
    using a b c add_duplicate_fails [of "on_cell\<lparr>ref := 5\<rparr>" lamp_service 6 "[]"
      "Brightness\<lparr>ctor_init := (\<lambda>args. on_cell)\<rparr>" "sensor\<lparr>bridged := False\<rparr>" demo_bridge id False]
    by blast
qed

text \<open>
  C6, as amended. \<^verbatim>\<open>removeBridgedAccessory\<close> of an accessory whose UUID is the UUID of
  no bridged accessory throws and leaves the bridge as it was. \<^verbatim>\<open>removeCharacteristic\<close>
  of a cell that is not in the service returns without an error, leaves the service as
  it was and emits nothing.
\<close>

theorem remove_absent:
  "(ref c \<notin> ref ` set (characteristics s) \<longrightarrow> removeCharacteristic s c = (s, c, [], Inr ()))
   \<and> (a_UUID a \<notin> a_UUID ` set (bridgedAccessories b) \<longrightarrow>
        removeBridgedAccessory b a deferUpdate
          = (b, a, [], Inl (Error (if isBridge a then ''Cannot Bridge another Bridge!''
                                   else ''Cannot find the bridged Accessory to remove.''))))"
proof -
  have one: "removeCharacteristic s c = (s, c, [], Inr ())"
    if "ref c \<notin> ref ` set (characteristics s)"
  proof -
    from that have "\<not> (\<exists>x\<in>set (characteristics s). ref x = ref c)"
      by (simp add: image_iff) metis
    then have "first_index (\<lambda>existing. ref existing = ref c) (characteristics s) = None"
      using first_index_None by blast
    then show ?thesis by (simp add: removeCharacteristic_def)
  qed
  have two: "removeBridgedAccessory b a deferUpdate
          = (b, a, [], Inl (Error (if isBridge a then ''Cannot Bridge another Bridge!''
                                   else ''Cannot find the bridged Accessory to remove.'')))"
    if "a_UUID a \<notin> a_UUID ` set (bridgedAccessories b)"
  proof -
    from that have "\<not> (\<exists>x\<in>set (bridgedAccessories b). a_UUID x = a_UUID a)"
      by (simp add: image_iff) metis
    then have "first_index (\<lambda>existing. a_UUID existing = a_UUID a) (bridgedAccessories b) = None"
      using first_index_None by blast
    then show ?thesis by (simp add: removeBridgedAccessory_def)
  qed
  from one two show ?thesis by blast
qed

text \<open>The theorem at a cell that the lamp does not have, and at an accessory that is
  not behind the bridge.\<close>

theorem remove_absent_witness:
  "ref plain_cell \<notin> ref ` set (characteristics lamp_service)
   \<and> removeCharacteristic lamp_service plain_cell = (lamp_service, plain_cell, [], Inr ())
   \<and> a_UUID (sensor\<lparr>a_UUID := ''A-2''\<rparr>) \<notin> a_UUID ` set (bridgedAccessories demo_bridge)
   \<and> removeBridgedAccessory demo_bridge (sensor\<lparr>a_UUID := ''A-2''\<rparr>) False
       = (demo_bridge, sensor\<lparr>a_UUID := ''A-2''\<rparr>, [],
          Inl (Error ''Cannot find the bridged Accessory to remove.''))"
proof -
  have a: "ref plain_cell \<notin> ref ` set (characteristics lamp_service)"
    by (simp add: lamp_service_def on_cell_def plain_cell_def)
  have b: "a_UUID (sensor\<lparr>a_UUID := ''A-2''\<rparr>) \<notin> a_UUID ` set (bridgedAccessories demo_bridge)"
    by (simp add: demo_bridge_def sensor_def)
  have c: "\<not> isBridge (sensor\<lparr>a_UUID := ''A-2''\<rparr>)"
    by (simp add: sensor_def)
  show ?thesis
    using a b c remove_absent [of plain_cell lamp_service "sensor\<lparr>a_UUID := ''A-2''\<rparr>" demo_bridge False]
    by simp
qed

text \<open>C6 as stated fails for a service: removing a cell that it does not have
  returns normally, where the claim says that it fails with an error.\<close>

theorem removeCharacteristic_absent_returns:
  "ref plain_cell \<notin> ref ` set (characteristics lamp_service)
   \<and> removeCharacteristic lamp_service plain_cell = (lamp_service, plain_cell, [], Inr ())"
  by (simp add: removeCharacteristic_def lamp_service_def on_cell_def plain_cell_def)

section \<open>Optional cells\<close>

lemma find_snoc: "find P xs = None \<Longrightarrow> P x \<Longrightarrow> find P (xs @ [x]) = Some x"
  by (induction xs) (auto split: if_splits)

lemma find_None_image: "f y \<notin> f ` set xs \<Longrightarrow> find (\<lambda>e. f e = f y) xs = None"
  by (induction xs) auto

lemma toHAP_each_snoc:
  "toHAP_each rt (xs @ [c]) opt = Inr hs \<Longrightarrow> hs \<noteq> [] \<and> snd (toHAP rt c opt) = Inr (last hs)"
proof (induction xs arbitrary: hs)
  case Nil
  then show ?case by (auto split: sum.splits)
next
  case (Cons x xs)
  then show ?case by (auto split: sum.splits)
qed

lemma promote:
  assumes "find (matches (ByType F)) (characteristics s) = None"
    and "list_ex (matches (ByType F)) (optionalCharacteristics s)"
    and "UUID (ctor_init F []) \<notin> UUID ` set (characteristics s)"
  shows "getCharacteristic (s, h) (ByType F)
       = ((s\<lparr>characteristics := characteristics s
               @ [(ctor_init F [])\<lparr>ref := h, classes := ctor_id F # ctor_supers F,
                     change_listeners := Suc (change_listeners (ctor_init F []))\<rparr>]\<rparr>, Suc h),
          [Emit_service_configurationChange],
          Inr (Some ((ctor_init F [])\<lparr>ref := h, classes := ctor_id F # ctor_supers F,
                     change_listeners := Suc (change_listeners (ctor_init F []))\<rparr>)))"
proof -
  have "find (\<lambda>existing. UUID existing = UUID (ctor_init F [])) (characteristics s) = None"
    using assms(3) by (rule find_None_image)
  with assms(1,2) show ?thesis
    by (simp add: getCharacteristic_def addCharacteristic_def construct_def Let_def)
qed

text \<open>A display name is looked up among the cells of the service and nowhere else.\<close>

lemma by_name_lookup:
  "getCharacteristic st (ByName n) = (st, [], Inr (find (matches (ByName n)) (characteristics (fst st))))"
  by (simp add: getCharacteristic_def split: option.splits)

text \<open>What the lamp sends once it has the cell Brightness.\<close>

lemma lamp_toHAP:
  "Service_toHAP example_runtime (lamp_service\<lparr>characteristics := [on_cell, brightness_cell]\<rparr>) None
     = Inr \<lparr>shap_iid = None, shap_type = ''U-Lightbulb'',
            shap_characteristics =
              [projr (snd (toHAP example_runtime on_cell None)),
               projr (snd (toHAP example_runtime brightness_cell None))],
            shap_primary = None\<rparr>"
proof -
  have a: "snd (toHAP example_runtime on_cell None)
      = Inr (projr (snd (toHAP example_runtime on_cell None)))"
    by (simp add: toHAP_def on_cell_def plain_cell_def plain_props_def stringLimit_def Let_def)
  have b: "snd (toHAP example_runtime brightness_cell None)
      = Inr (projr (snd (toHAP example_runtime brightness_cell None)))"
    by (simp add: toHAP_def brightness_cell_def plain_cell_def plain_props_def stringLimit_def
        Let_def)
  have "toHAP_each example_runtime [on_cell, brightness_cell] None
      = Inr [projr (snd (toHAP example_runtime on_cell None)),
             projr (snd (toHAP example_runtime brightness_cell None))]"
    by (subst toHAP_each.simps, subst a, simp, subst toHAP_each.simps, subst b, simp)
  then show ?thesis
    by (simp add: Service_toHAP_def lamp_service_def)
qed

text \<open>
  C8, as amended. Let the selector be a constructor that no cell of the service matches,
  that a cell among the optional ones matches, and whose instance has a UUID that no cell
  of the service has (as is the case when the static UUID of the constructor is the
  UUID of its instances). Then \<^verbatim>\<open>getCharacteristic\<close> adds a new instance at the end of
  the list of cells and returns it; a second call with the same selector returns that
  cell and adds nothing; and when \<^verbatim>\<open>toHAP\<close> of the service returns, the last of its
  characteristics is the object of that cell. A display name never promotes: whatever the
  service and the name, the call leaves the service as it is, emits nothing and returns
  the first cell of that name among the cells of the service, or \<^verbatim>\<open>undefined\<close>.
\<close>

theorem lazy_promotion:
  "(find (matches (ByType F)) (characteristics s) = None
     \<and> list_ex (matches (ByType F)) (optionalCharacteristics s)
     \<and> UUID (ctor_init F []) \<notin> UUID ` set (characteristics s)
    \<longrightarrow> (let c = (ctor_init F [])\<lparr>ref := h, classes := ctor_id F # ctor_supers F,
                     change_listeners := Suc (change_listeners (ctor_init F []))\<rparr>;
              s' = s\<lparr>characteristics := characteristics s @ [c]\<rparr>
          in getCharacteristic (s, h) (ByType F)
               = ((s', Suc h), [Emit_service_configurationChange], Inr (Some c))
           \<and> getCharacteristic (s', Suc h) (ByType F) = ((s', Suc h), [], Inr (Some c))
           \<and> (\<forall>sh. Service_toHAP rt s' opt = Inr sh \<longrightarrow>
                 shap_characteristics sh \<noteq> []
                 \<and> snd (toHAP rt c opt) = Inr (last (shap_characteristics sh)))))
   \<and> getCharacteristic st (ByName n)
       = (st, [], Inr (find (matches (ByName n)) (characteristics (fst st))))"
proof -
  let ?c = "(ctor_init F [])\<lparr>ref := h, classes := ctor_id F # ctor_supers F,
                     change_listeners := Suc (change_listeners (ctor_init F []))\<rparr>"
  let ?s = "s\<lparr>characteristics := characteristics s @ [?c]\<rparr>"
  have typed: "getCharacteristic (s, h) (ByType F)
               = ((?s, Suc h), [Emit_service_configurationChange], Inr (Some ?c))
           \<and> getCharacteristic (?s, Suc h) (ByType F) = ((?s, Suc h), [], Inr (Some ?c))
           \<and> (\<forall>sh. Service_toHAP rt ?s opt = Inr sh \<longrightarrow>
                 shap_characteristics sh \<noteq> []
                 \<and> snd (toHAP rt ?c opt) = Inr (last (shap_characteristics sh)))"
    if a: "find (matches (ByType F)) (characteristics s) = None"
      and b: "list_ex (matches (ByType F)) (optionalCharacteristics s)"
      and c: "UUID (ctor_init F []) \<notin> UUID ` set (characteristics s)"
  proof -
    have first: "getCharacteristic (s, h) (ByType F)
        = ((?s, Suc h), [Emit_service_configurationChange], Inr (Some ?c))"
      using a b c by (rule promote)
    have "matches (ByType F) ?c" by simp
    with a have "find (matches (ByType F)) (characteristics ?s) = Some ?c"
      by (simp add: find_snoc)
    then have again: "getCharacteristic (?s, Suc h) (ByType F) = ((?s, Suc h), [], Inr (Some ?c))"
      by (simp add: getCharacteristic_def)
    have sent: "shap_characteristics sh \<noteq> []
        \<and> snd (toHAP rt ?c opt) = Inr (last (shap_characteristics sh))"
      if "Service_toHAP rt ?s opt = Inr sh" for sh
    proof -
      from that obtain hs where hs: "toHAP_each rt (characteristics s @ [?c]) opt = Inr hs"
        and sh: "shap_characteristics sh = hs"
        by (auto simp add: Service_toHAP_def split: sum.splits)
      from toHAP_each_snoc [OF hs] sh show ?thesis by simp
    qed
    from first again sent show ?thesis by blast
  qed
  from typed by_name_lookup [of st n] show ?thesis
    unfolding Let_def by blast
qed

text \<open>The theorem at the lamp, the constructor Brightness and the names of the cell On
  and of the optional cell Brightness: the lamp gets a second cell, which the second call
  returns and which is the last that the lamp sends.\<close>

theorem lazy_promotion_witness:
  "find (matches (ByType Brightness)) (characteristics lamp_service) = None
   \<and> list_ex (matches (ByType Brightness)) (optionalCharacteristics lamp_service)
   \<and> UUID (ctor_init Brightness []) \<notin> UUID ` set (characteristics lamp_service)
   \<and> getCharacteristic (lamp_service, 3) (ByType Brightness)
       = ((lamp_service\<lparr>characteristics := [on_cell, brightness_cell]\<rparr>, 4),
          [Emit_service_configurationChange], Inr (Some brightness_cell))
   \<and> getCharacteristic (lamp_service\<lparr>characteristics := [on_cell, brightness_cell]\<rparr>, 4)
         (ByType Brightness)
       = ((lamp_service\<lparr>characteristics := [on_cell, brightness_cell]\<rparr>, 4), [],
          Inr (Some brightness_cell))
   \<and> \<not> isl (Service_toHAP example_runtime
               (lamp_service\<lparr>characteristics := [on_cell, brightness_cell]\<rparr>) None)
   \<and> snd (toHAP example_runtime brightness_cell None)
       = Inr (last (shap_characteristics (projr (Service_toHAP example_runtime
               (lamp_service\<lparr>characteristics := [on_cell, brightness_cell]\<rparr>) None))))
   \<and> getCharacteristic (lamp_service, 3) (ByName ''On'') = ((lamp_service, 3), [], Inr (Some on_cell))
   \<and> getCharacteristic (lamp_service, 3) (ByName ''Brightness'') = ((lamp_service, 3), [], Inr None)"
proof -
  let ?lamp = "lamp_service\<lparr>characteristics := [on_cell, brightness_cell]\<rparr>"
  have a: "find (matches (ByType Brightness)) (characteristics lamp_service) = None"
    by (simp add: lamp_service_def on_cell_def plain_cell_def Brightness_def)
  have b: "list_ex (matches (ByType Brightness)) (optionalCharacteristics lamp_service)"
    by (simp add: lamp_service_def construct_def Brightness_def)
  have c: "UUID (ctor_init Brightness []) \<notin> UUID ` set (characteristics lamp_service)"
    by (simp add: lamp_service_def on_cell_def plain_cell_def Brightness_def)
  have d: "(ctor_init Brightness [])\<lparr>ref := 3,
              classes := ctor_id Brightness # ctor_supers Brightness,
              change_listeners := Suc (change_listeners (ctor_init Brightness []))\<rparr>
           = brightness_cell"
    by (simp add: brightness_cell_def Brightness_def plain_cell_def)
  have e: "characteristics lamp_service = [on_cell]"
    by (simp add: lamp_service_def)
  have r: "Service_toHAP example_runtime ?lamp None
      = Inr (projr (Service_toHAP example_runtime ?lamp None))"
    by (simp add: lamp_toHAP)
  have on: "find (matches (ByName ''On'')) (characteristics (fst (lamp_service, 3::nat)))
      = Some on_cell"
    by (simp add: lamp_service_def on_cell_def)
  have br: "find (matches (ByName ''Brightness'')) (characteristics (fst (lamp_service, 3::nat)))
      = None"
    by (simp add: lamp_service_def on_cell_def)
  have typed: "getCharacteristic (lamp_service, 3) (ByType Brightness)
       = ((?lamp, 4), [Emit_service_configurationChange], Inr (Some brightness_cell))
     \<and> getCharacteristic (?lamp, 4) (ByType Brightness) = ((?lamp, 4), [], Inr (Some brightness_cell))
     \<and> (\<forall>sh. Service_toHAP example_runtime ?lamp None = Inr sh \<longrightarrow>
           shap_characteristics sh \<noteq> []
           \<and> snd (toHAP example_runtime brightness_cell None) = Inr (last (shap_characteristics sh)))"
    using lazy_promotion [of Brightness lamp_service 3 example_runtime None "(lamp_service, 3)" "''On''"]
      a b c
    unfolding Let_def d e by simp
  with r have sent: "snd (toHAP example_runtime brightness_cell None)
       = Inr (last (shap_characteristics (projr (Service_toHAP example_runtime ?lamp None))))"
    by blast
  have named: "getCharacteristic (lamp_service, 3) (ByName ''On'') = ((lamp_service, 3), [], Inr (Some on_cell))"
    using lazy_promotion [of Brightness lamp_service 3 example_runtime None "(lamp_service, 3)" "''On''"]
    by (simp only: on)
  have named2: "getCharacteristic (lamp_service, 3) (ByName ''Brightness'') = ((lamp_service, 3), [], Inr None)"
    using lazy_promotion [of Brightness lamp_service 3 example_runtime None "(lamp_service, 3)" "''Brightness''"]
    by (simp only: br)
  from r have ret: "\<not> isl (Service_toHAP example_runtime ?lamp None)"
    by (metis sum.disc(2))
  from a b c typed sent named named2 ret show ?thesis by simp
qed

text \<open>C8 as stated fails for a display name: the name of an optional cell that is not
  among the cells of the service is answered with \<^verbatim>\<open>undefined\<close>, and nothing is added.\<close>

theorem getCharacteristic_by_name_no_promotion:
  "find (matches (ByName ''Brightness'')) (characteristics lamp_service) = None
   \<and> list_ex (matches (ByName ''Brightness'')) (optionalCharacteristics lamp_service)
   \<and> getCharacteristic (lamp_service, 3) (ByName ''Brightness'') = ((lamp_service, 3), [], Inr None)"
  by (simp add: getCharacteristic_def lamp_service_def on_cell_def plain_cell_def
      construct_def Brightness_def)


end
